theory Spec2Isabelle
  imports Main "HOL-Library.AList"
begin

section \<open>Values that cross the host boundary\<close>

text \<open>
  The connector of \<^verbatim>\<open>featureDevChatConnector.ts\<close> receives records typed \<^verbatim>\<open>any\<close> from
  the host and hands object literals to injected callbacks. Such values are modelled as
  JSON-like trees extended with \<^verbatim>\<open>undefined\<close>. An object is the association list of its own
  properties; a property that is not listed reads as \<^verbatim>\<open>undefined\<close>.
\<close>

datatype jsval =
    Undefined
  | Null
  | Bool bool
  | Num int
  | Str string
  | Arr "jsval list"
  | Obj "(string \<times> jsval) list"

type_synonym object = "(string \<times> jsval) list"

datatype error = TypeError

definition getProp :: "object \<Rightarrow> string \<Rightarrow> jsval" where
  \<comment> \<open>\<^verbatim>\<open>o.k\<close> for an object \<^verbatim>\<open>o\<close>\<close>
  "getProp ob k = (case map_of ob k of None \<Rightarrow> Undefined | Some v \<Rightarrow> v)"

definition nullish :: "jsval \<Rightarrow> jsval \<Rightarrow> jsval" where
  \<comment> \<open>\<^verbatim>\<open>a ?? b\<close>\<close>
  "nullish a b = (if a = Undefined \<or> a = Null then b else a)"

fun isArray :: "jsval \<Rightarrow> bool" where
  \<comment> \<open>\<^verbatim>\<open>Array.isArray(v)\<close>\<close>
  "isArray (Arr xs) = True"
| "isArray _ = False"

fun spread :: "jsval \<Rightarrow> error + jsval list" where
  \<comment> \<open>\<^verbatim>\<open>...v\<close> inside an array literal: arrays and strings are iterable, nothing else is\<close>
  "spread (Arr xs) = Inr xs"
| "spread (Str s) = Inr (map (\<lambda>c. Str [c]) s)"
| "spread _ = Inl TypeError"

fun zipFilePath :: "jsval \<Rightarrow> error + jsval" where
  \<comment> \<open>\<^verbatim>\<open>path.zipFilePath\<close>: reading a property of \<^verbatim>\<open>undefined\<close> or \<^verbatim>\<open>null\<close> throws\<close>
  "zipFilePath Undefined = Inl TypeError"
| "zipFilePath Null = Inl TypeError"
| "zipFilePath (Obj ps) = Inr (getProp ps ''zipFilePath'')"
| "zipFilePath _ = Inr Undefined"

fun traverse :: "(jsval \<Rightarrow> error + jsval) \<Rightarrow> jsval list \<Rightarrow> error + jsval list" where
  "traverse f [] = Inr []"
| "traverse f (x # xs) =
     (case f x of
        Inl e \<Rightarrow> Inl e
      | Inr y \<Rightarrow> (case traverse f xs of Inl e \<Rightarrow> Inl e | Inr ys \<Rightarrow> Inr (y # ys)))"

fun array_map :: "(jsval \<Rightarrow> error + jsval) \<Rightarrow> jsval \<Rightarrow> error + jsval" where
  \<comment> \<open>\<^verbatim>\<open>v.map(f)\<close>: only an array has a callable \<^verbatim>\<open>map\<close>\<close>
  "array_map f (Arr xs) = (case traverse f xs of Inl e \<Rightarrow> Inl e | Inr ys \<Rightarrow> Inr (Arr ys))"
| "array_map f _ = Inl TypeError"

fun optional :: "('a \<Rightarrow> jsval) \<Rightarrow> 'a option \<Rightarrow> jsval" where
  \<comment> \<open>an optional argument that was not passed is \<^verbatim>\<open>undefined\<close>\<close>
  "optional f None = Undefined"
| "optional f (Some x) = f x"

section \<open>The chat item handed to the UI\<close>

text \<open>
  Modelled from the spec: the enumeration \<^verbatim>\<open>ChatItemType\<close> is declared by the UI library,
  not by this file; the spec names its members "answer" and "system-prompt".
\<close>

definition ANSWER :: jsval where
  "ANSWER = Str ''answer''"

definition SYSTEM_PROMPT :: jsval where
  "SYSTEM_PROMPT = Str ''system-prompt''"

text \<open>
  The fields of the three object literals of type \<^verbatim>\<open>ChatItem\<close> that the connector builds.
  A field that a literal leaves out is \<^verbatim>\<open>Undefined\<close>.
\<close>

record ChatItem =
  type :: jsval
  body :: jsval
  messageId :: jsval
  relatedContent :: jsval
  canBeVoted :: jsval
  snapToTop :: jsval
  informationCard :: jsval
  followUp :: jsval
  codeReference :: jsval
  fileList :: jsval

section \<open>Observable effects\<close>

text \<open>
  Every injected callback is observed through the list of its invocations, in order, each
  with its arguments. \<open>SendMessageToExtension\<close> is the send-to-host callback; the other
  constructors are the UI callbacks.
\<close>

datatype event =
    SendMessageToExtension object
  | OnFileComponentUpdate jsval jsval jsval jsval jsval
  | OnChatAnswerUpdated jsval ChatItem
  | OnChatAnswerReceived jsval ChatItem
  | OnError jsval jsval jsval
  | OnWarning jsval jsval jsval
  | OnAsyncEventProgress jsval jsval jsval jsval
  | UpdatePlaceholder jsval jsval
  | ChatInputEnabled jsval jsval
  | OnUpdateAuthentication jsval jsval jsval jsval jsval jsval
  | OnNewTab jsval

text \<open>
  What the constructor keeps of \<^verbatim>\<open>ConnectorProps\<close> that a handler can branch on: whether
  each of the two optional callbacks was supplied. The two collaborators are imported
  from other modules and are taken as given functions.
\<close>

record Connector =
  onChatAnswerReceived :: bool
  onChatAnswerUpdated :: bool
  generateAuthFollowUps :: "jsval \<Rightarrow> jsval \<Rightarrow> jsval"
  getActions :: "jsval list \<Rightarrow> jsval"

type_synonym outcome = "event list \<times> (error + unit)"

section \<open>Answer construction\<close>

definition createAnswer :: "object \<Rightarrow> ChatItem" where
  "createAnswer messageData =
     \<lparr> type = getProp messageData ''messageType'',
       body = nullish (getProp messageData ''message'') Undefined,
       messageId =
         nullish (getProp messageData ''messageId'')
           (nullish (getProp messageData ''messageID'')
              (nullish (getProp messageData ''triggerID'') (Str ''''))),
       relatedContent = Undefined,
       canBeVoted = nullish (getProp messageData ''canBeVoted'') Undefined,
       snapToTop = nullish (getProp messageData ''snapToTop'') Undefined,
       informationCard = nullish (getProp messageData ''informationCard'') Undefined,
       followUp =
         (if getProp messageData ''followUps'' \<noteq> Undefined \<and> isArray (getProp messageData ''followUps'')
          then Obj
            [(''text'',
               if getProp messageData ''messageType'' = SYSTEM_PROMPT \<or>
                  (case getProp messageData ''followUps'' of Arr xs \<Rightarrow> length xs = 0 | _ \<Rightarrow> False)
               then Str ''''
               else Str ''Please follow up with one of these''),
             (''options'', getProp messageData ''followUps'')]
          else Undefined),
       codeReference = Undefined,
       fileList = Undefined \<rparr>"

section \<open>Inbound handlers\<close>

definition processChatMessage :: "Connector \<Rightarrow> object \<Rightarrow> outcome" where
  "processChatMessage c messageData =
     (if onChatAnswerReceived c
      then ([OnChatAnswerReceived (getProp messageData ''tabID'') (createAnswer messageData)], Inr ())
      else ([], Inr ()))"

definition codeResultMessageId :: "object \<Rightarrow> jsval" where
  \<comment> \<open>\<^verbatim>\<open>const messageId\<close> of \<^verbatim>\<open>processCodeResultMessage\<close>\<close>
  "codeResultMessageId messageData =
     nullish (getProp messageData ''messageId'')
       (nullish (getProp messageData ''messageID'')
          (nullish (getProp messageData ''triggerID'')
             (nullish (getProp messageData ''conversationID'')
                (getProp messageData ''codeGenerationId''))))"

definition processCodeResultMessage :: "Connector \<Rightarrow> object \<Rightarrow> outcome" where
  "processCodeResultMessage c messageData =
     (if onChatAnswerReceived c then
        let messageId = codeResultMessageId messageData;
            sent = [SendMessageToExtension
                      [(''command'', Str ''store-code-result-message-id''),
                       (''tabID'', getProp messageData ''tabID''),
                       (''messageId'', messageId),
                       (''tabType'', Str ''featuredev'')]]
        in case spread (getProp messageData ''filePaths'') of
             Inl e \<Rightarrow> (sent, Inl e)
           | Inr fs \<Rightarrow>
         (case spread (getProp messageData ''deletedFiles'') of
             Inl e \<Rightarrow> (sent, Inl e)
           | Inr ds \<Rightarrow>
         (let actions = getActions c (fs @ ds)
          in case array_map zipFilePath (getProp messageData ''filePaths'') of
             Inl e \<Rightarrow> (sent, Inl e)
           | Inr filePaths \<Rightarrow>
         (case array_map zipFilePath (getProp messageData ''deletedFiles'') of
             Inl e \<Rightarrow> (sent, Inl e)
           | Inr deletedFiles \<Rightarrow>
             (sent @
              [OnChatAnswerReceived (getProp messageData ''tabID'')
                 \<lparr> type = ANSWER,
                   body = Str '''',
                   messageId = messageId,
                   relatedContent = Undefined,
                   canBeVoted = Bool True,
                   snapToTop = Undefined,
                   informationCard = Undefined,
                   followUp = Undefined,
                   codeReference = getProp messageData ''references'',
                   fileList = Obj
                     [(''rootFolderTitle'', Str ''Changes''),
                      (''filePaths'', filePaths),
                      (''deletedFiles'', deletedFiles),
                      (''actions'', actions)] \<rparr>],
              Inr ()))))
      else ([], Inr ()))"

definition processAuthNeededException :: "Connector \<Rightarrow> object \<Rightarrow> outcome" where
  "processAuthNeededException c messageData =
     (if \<not> onChatAnswerReceived c then ([], Inr ())
      else
        ([OnChatAnswerReceived (getProp messageData ''tabID'')
            \<lparr> type = ANSWER,
              body = getProp messageData ''message'',
              messageId = Undefined,
              relatedContent = Undefined,
              canBeVoted = Bool False,
              snapToTop = Undefined,
              informationCard = Undefined,
              followUp = Undefined,
              codeReference = Undefined,
              fileList = Undefined \<rparr>,
          OnChatAnswerReceived (getProp messageData ''tabID'')
            \<lparr> type = SYSTEM_PROMPT,
              body = Undefined,
              messageId = Undefined,
              relatedContent = Undefined,
              canBeVoted = Bool False,
              snapToTop = Undefined,
              informationCard = Undefined,
              followUp = generateAuthFollowUps c (Str ''featuredev'') (getProp messageData ''authType''),
              codeReference = Undefined,
              fileList = Undefined \<rparr>],
         Inr ()))"

definition handleMessageReceive :: "Connector \<Rightarrow> object \<Rightarrow> outcome" where
  "handleMessageReceive c messageData =
     (if getProp messageData ''type'' = Str ''updateFileComponent'' then
        ([OnFileComponentUpdate (getProp messageData ''tabID'') (getProp messageData ''filePaths'')
            (getProp messageData ''deletedFiles'') (getProp messageData ''messageId'')
            (getProp messageData ''disableFileActions'')], Inr ())
      else if getProp messageData ''type'' = Str ''updateChatAnswer'' then
        (let answer = createAnswer messageData
         in if onChatAnswerUpdated c
            then ([OnChatAnswerUpdated (getProp messageData ''tabID'') answer], Inr ())
            else ([], Inr ()))
      else if getProp messageData ''type'' = Str ''errorMessage'' then
        ([OnError (getProp messageData ''tabID'') (getProp messageData ''message'')
            (getProp messageData ''title'')], Inr ())
      else if getProp messageData ''type'' = Str ''showInvalidTokenNotification'' then
        ([OnWarning (getProp messageData ''tabID'') (getProp messageData ''message'')
            (getProp messageData ''title'')], Inr ())
      else if getProp messageData ''type'' = Str ''chatMessage'' then
        processChatMessage c messageData
      else if getProp messageData ''type'' = Str ''codeResultMessage'' then
        processCodeResultMessage c messageData
      else if getProp messageData ''type'' = Str ''asyncEventProgressMessage'' then
        ([OnAsyncEventProgress (getProp messageData ''tabID'') (getProp messageData ''inProgress'')
            (nullish (getProp messageData ''message'') Undefined) (Bool True)], Inr ())
      else if getProp messageData ''type'' = Str ''updatePlaceholderMessage'' then
        ([UpdatePlaceholder (getProp messageData ''tabID'') (getProp messageData ''newPlaceholder'')],
         Inr ())
      else if getProp messageData ''type'' = Str ''chatInputEnabledMessage'' then
        ([ChatInputEnabled (getProp messageData ''tabID'') (getProp messageData ''enabled'')], Inr ())
      else if getProp messageData ''type'' = Str ''authenticationUpdateMessage'' then
        ([OnUpdateAuthentication (getProp messageData ''featureDevEnabled'')
            (getProp messageData ''codeTransformEnabled'') (getProp messageData ''docEnabled'')
            (getProp messageData ''codeScanEnabled'') (getProp messageData ''codeTestEnabled'')
            (getProp messageData ''authenticatingTabIDs'')], Inr ())
      else if getProp messageData ''type'' = Str ''authNeededException'' then
        \<comment> \<open>called without \<^verbatim>\<open>await\<close>: its effects happen, its result is dropped\<close>
        (fst (processAuthNeededException c messageData), Inr ())
      else if getProp messageData ''type'' = Str ''openNewTabMessage'' then
        ([OnNewTab (Str ''featuredev'')], Inr ())
      else ([], Inr ()))"

section \<open>Outbound action methods\<close>

text \<open>
  Each method returns the list of callback invocations it performs. Arguments carry the
  types of the source; values of the types \<^verbatim>\<open>CodeReference\<close> and \<^verbatim>\<open>ChatItemAction\<close>, which
  are declared elsewhere and only passed through, are \<open>jsval\<close>s.
\<close>

datatype CodeSelectionType = selection | block

record ChatPayload =
  chatMessage :: string

definition onCodeInsertToCursorPosition ::
  "string \<Rightarrow> string option \<Rightarrow> CodeSelectionType option \<Rightarrow> jsval list option \<Rightarrow> event list" where
  "onCodeInsertToCursorPosition tabID code type' codeReference' =
     [SendMessageToExtension
        [(''tabID'', Str tabID),
         (''code'', optional Str code),
         (''command'', Str ''insert_code_at_cursor_position''),
         (''codeReference'', optional Arr codeReference'),
         (''tabType'', Str ''featuredev'')]]"

definition onCopyCodeToClipboard ::
  "string \<Rightarrow> string option \<Rightarrow> CodeSelectionType option \<Rightarrow> jsval list option \<Rightarrow> event list" where
  "onCopyCodeToClipboard tabID code type' codeReference' =
     [SendMessageToExtension
        [(''tabID'', Str tabID),
         (''code'', optional Str code),
         (''command'', Str ''code_was_copied_to_clipboard''),
         (''codeReference'', optional Arr codeReference'),
         (''tabType'', Str ''featuredev'')]]"

definition onOpenDiff :: "string \<Rightarrow> string \<Rightarrow> bool \<Rightarrow> event list" where
  "onOpenDiff tabID filePath deleted =
     [SendMessageToExtension
        [(''command'', Str ''open-diff''),
         (''tabID'', Str tabID),
         (''filePath'', Str filePath),
         (''deleted'', Bool deleted),
         (''tabType'', Str ''featuredev'')]]"

definition followUpClicked :: "string \<Rightarrow> jsval \<Rightarrow> event list" where
  "followUpClicked tabID followUp' =
     [SendMessageToExtension
        [(''command'', Str ''follow-up-was-clicked''),
         (''followUp'', followUp'),
         (''tabID'', Str tabID),
         (''tabType'', Str ''featuredev'')]]"

text \<open>
  A promise is observed through its settlement. The executor passed to \<^verbatim>\<open>new Promise\<close> is
  the only code that can reach the two settling functions; it is the list of its steps,
  and the first settling step, if any, decides the state.
\<close>

datatype settlement = Pending | Fulfilled jsval | Rejected jsval

datatype executor_step = Invoke event | Resolve jsval | Reject jsval

fun run_executor :: "executor_step list \<Rightarrow> event list \<times> settlement \<Rightarrow> event list \<times> settlement" where
  "run_executor [] st = st"
| "run_executor (Invoke e # steps) (tr, p) = run_executor steps (tr @ [e], p)"
| "run_executor (Resolve v # steps) (tr, p) =
     run_executor steps (tr, if p = Pending then Fulfilled v else p)"
| "run_executor (Reject v # steps) (tr, p) =
     run_executor steps (tr, if p = Pending then Rejected v else p)"

definition new_Promise :: "executor_step list \<Rightarrow> event list \<times> settlement" where
  "new_Promise executor = run_executor executor ([], Pending)"

definition requestGenerativeAIAnswer :: "string \<Rightarrow> ChatPayload \<Rightarrow> event list \<times> settlement" where
  "requestGenerativeAIAnswer tabID payload =
     new_Promise
       [Invoke (SendMessageToExtension
          [(''tabID'', Str tabID),
           (''command'', Str ''chat-prompt''),
           (''chatMessage'', Str (chatMessage payload)),
           (''tabType'', Str ''featuredev'')])]"

definition onFileActionClick :: "string \<Rightarrow> string \<Rightarrow> string \<Rightarrow> string \<Rightarrow> event list" where
  "onFileActionClick tabID messageId' filePath actionName =
     [SendMessageToExtension
        [(''command'', Str ''file-click''),
         (''tabID'', Str tabID),
         (''messageId'', Str messageId'),
         (''filePath'', Str filePath),
         (''actionName'', Str actionName),
         (''tabType'', Str ''featuredev'')]]"

definition onStopChatResponse :: "string \<Rightarrow> event list" where
  "onStopChatResponse tabID =
     [SendMessageToExtension
        [(''tabID'', Str tabID),
         (''command'', Str ''stop-response''),
         (''tabType'', Str ''featuredev'')]]"

definition onTabOpen :: "string \<Rightarrow> event list" where
  "onTabOpen tabID =
     [SendMessageToExtension
        [(''tabID'', Str tabID),
         (''command'', Str ''new-tab-was-created''),
         (''tabType'', Str ''featuredev'')]]"

definition onTabRemove :: "string \<Rightarrow> event list" where
  "onTabRemove tabID =
     [SendMessageToExtension
        [(''tabID'', Str tabID),
         (''command'', Str ''tab-was-removed''),
         (''tabType'', Str ''featuredev'')]]"

text \<open>
  Modelled from the spec: the interface \<^verbatim>\<open>FeedbackPayload\<close> is declared by the UI library,
  not by this file. It declares the string properties \<^verbatim>\<open>messageId\<close>, \<^verbatim>\<open>tabId\<close> and
  \<^verbatim>\<open>selectedOption\<close> and the optional string property \<^verbatim>\<open>comment\<close>.
\<close>

record FeedbackPayload =
  payload_messageId :: string
  payload_tabId :: string
  selectedOption :: string
  comment :: "string option"

definition own_props :: "FeedbackPayload \<Rightarrow> object" where
  \<comment> \<open>the own properties of a payload, in declaration order; a comment that was not
      given is not a property\<close>
  "own_props p =
     [(''messageId'', Str (payload_messageId p)),
      (''tabId'', Str (payload_tabId p)),
      (''selectedOption'', Str (selectedOption p))]
     @ (case comment p of None \<Rightarrow> [] | Some text \<Rightarrow> [(''comment'', Str text)])"

definition spread_props :: "object \<Rightarrow> object \<Rightarrow> object" where
  \<comment> \<open>\<^verbatim>\<open>...src\<close> inside an object literal: every own property of \<^verbatim>\<open>src\<close>, in order, is set
      on the object built so far; a property already there keeps its place and takes the
      new value. The property names that occur here are never integer-like, so insertion
      order is the property order.\<close>
  "spread_props target src =
     foldl (\<lambda>ob k. AList.update k (getProp src k) ob) target (remdups (map fst src))"

definition sendFeedback :: "string \<Rightarrow> FeedbackPayload \<Rightarrow> event list" where
  \<comment> \<open>the literal sets \<^verbatim>\<open>command\<close>, then spreads the payload, then sets \<^verbatim>\<open>tabType\<close> and
      \<^verbatim>\<open>tabID\<close>\<close>
  "sendFeedback tabId feedbackPayload =
     [SendMessageToExtension
        (AList.update ''tabID'' (Str tabId)
           (AList.update ''tabType'' (Str ''featuredev'')
              (spread_props [(''command'', Str ''chat-item-feedback'')]
                 (own_props feedbackPayload))))]"

definition onChatItemVoted :: "string \<Rightarrow> string \<Rightarrow> string \<Rightarrow> event list" where
  "onChatItemVoted tabId messageId' vote =
     [SendMessageToExtension
        [(''tabID'', Str tabId),
         (''messageId'', Str messageId'),
         (''vote'', Str vote),
         (''command'', Str ''chat-item-voted''),
         (''tabType'', Str ''featuredev'')]]"

definition onResponseBodyLinkClick :: "string \<Rightarrow> string \<Rightarrow> string \<Rightarrow> event list" where
  "onResponseBodyLinkClick tabID messageId' link =
     [SendMessageToExtension
        [(''command'', Str ''response-body-link-click''),
         (''tabID'', Str tabID),
         (''messageId'', Str messageId'),
         (''link'', Str link),
         (''tabType'', Str ''featuredev'')]]"

section \<open>Vocabulary of the properties\<close>

text \<open>The name of the constructor property behind each invocation.\<close>

fun callback_name :: "event \<Rightarrow> string" where
  "callback_name (SendMessageToExtension m) = ''sendMessageToExtension''"
| "callback_name (OnFileComponentUpdate t f d m a) = ''onFileComponentUpdate''"
| "callback_name (OnChatAnswerUpdated t a) = ''onChatAnswerUpdated''"
| "callback_name (OnChatAnswerReceived t a) = ''onChatAnswerReceived''"
| "callback_name (OnError t m ti) = ''onError''"
| "callback_name (OnWarning t m ti) = ''onWarning''"
| "callback_name (OnAsyncEventProgress t p m b) = ''onAsyncEventProgress''"
| "callback_name (UpdatePlaceholder t p) = ''onUpdatePlaceholder''"
| "callback_name (ChatInputEnabled t e) = ''onChatInputEnabled''"
| "callback_name (OnUpdateAuthentication a b c d e f) = ''onUpdateAuthentication''"
| "callback_name (OnNewTab t) = ''onNewTab''"

definition ui_invocations :: "event list \<Rightarrow> string list" where
  \<comment> \<open>the UI callbacks invoked, in order; sends to the host are left out\<close>
  "ui_invocations tr = filter (\<lambda>n. n \<noteq> ''sendMessageToExtension'') (map callback_name tr)"

text \<open>
  The dispatch table of the specification (section 4.2): the twelve recognized tags, each
  with the UI callback documented for it.
\<close>

definition documented_callback :: "(string \<times> string) list" where
  "documented_callback =
     [(''updateFileComponent'', ''onFileComponentUpdate''),
      (''updateChatAnswer'', ''onChatAnswerUpdated''),
      (''errorMessage'', ''onError''),
      (''showInvalidTokenNotification'', ''onWarning''),
      (''chatMessage'', ''onChatAnswerReceived''),
      (''codeResultMessage'', ''onChatAnswerReceived''),
      (''asyncEventProgressMessage'', ''onAsyncEventProgress''),
      (''updatePlaceholderMessage'', ''onUpdatePlaceholder''),
      (''chatInputEnabledMessage'', ''onChatInputEnabled''),
      (''authenticationUpdateMessage'', ''onUpdateAuthentication''),
      (''authNeededException'', ''onChatAnswerReceived''),
      (''openNewTabMessage'', ''onNewTab'')]"

text \<open>
  The precedence rule of the specification (section 3), in its words: the first
  non-missing candidate wins; \<open>d\<close> is what remains when every candidate is missing.
\<close>

fun first_non_missing :: "jsval list \<Rightarrow> jsval \<Rightarrow> jsval" where
  "first_non_missing [] d = d"
| "first_non_missing (v # vs) d =
     (if v = Undefined \<or> v = Null then first_non_missing vs d else v)"

section \<open>Auxiliary facts\<close>

lemma getProp_simps:
  "getProp [] k = Undefined"
  "getProp ((k', v) # ps) k = (if k' = k then v else getProp ps k)"
  by (simp_all add: getProp_def)

lemma traverse_zipFilePath_Obj:
  "traverse zipFilePath (map Obj es) = Inr (map (\<lambda>e. getProp e ''zipFilePath'') es)"
  by (induction es) simp_all

lemma processCodeResultMessage_wf:
  assumes "onChatAnswerReceived c"
    and "getProp md ''filePaths'' = Arr (map Obj fs)"
    and "getProp md ''deletedFiles'' = Arr (map Obj ds)"
  shows "processCodeResultMessage c md =
    ([SendMessageToExtension
        [(''command'', Str ''store-code-result-message-id''),
         (''tabID'', getProp md ''tabID''),
         (''messageId'', codeResultMessageId md),
         (''tabType'', Str ''featuredev'')],
      OnChatAnswerReceived (getProp md ''tabID'')
        \<lparr> type = ANSWER, body = Str '''', messageId = codeResultMessageId md,
          relatedContent = Undefined, canBeVoted = Bool True, snapToTop = Undefined,
          informationCard = Undefined, followUp = Undefined,
          codeReference = getProp md ''references'',
          fileList = Obj
            [(''rootFolderTitle'', Str ''Changes''),
             (''filePaths'', Arr (map (\<lambda>e. getProp e ''zipFilePath'') fs)),
             (''deletedFiles'', Arr (map (\<lambda>e. getProp e ''zipFilePath'') ds)),
             (''actions'', getActions c (map Obj fs @ map Obj ds))] \<rparr>],
     Inr ())"
  using assms by (simp add: processCodeResultMessage_def Let_def traverse_zipFilePath_Obj)

lemma handle_codeResult:
  "getProp md ''type'' = Str ''codeResultMessage'' \<Longrightarrow>
   handleMessageReceive c md = processCodeResultMessage c md"
  by (simp add: handleMessageReceive_def)

lemma map_of_foldl_update:
  "map_of (foldl (\<lambda>ob k. AList.update k (f k) ob) t ks) k =
     (if k \<in> set ks then Some (f k) else map_of t k)"
  by (induction ks arbitrary: t) (auto simp: update_conv')

lemma getProp_spread_props:
  "getProp (spread_props t src) k =
     (if map_of src k = None then getProp t k else getProp src k)"
  by (auto simp: getProp_def spread_props_def map_of_foldl_update map_of_eq_None_iff)

lemma feedback_command_kept:
  "map_of p ''command'' = None \<Longrightarrow>
   getProp (AList.update ''tabID'' t (AList.update ''tabType'' f (spread_props [(''command'', v)] p)))
     ''command'' = v"
  using getProp_spread_props [of "[(''command'', v)]" p "''command''"]
  by (simp add: getProp_def update_conv')

lemma own_props_no_command:
  "map_of (own_props p) ''command'' = None"
  by (cases "comment p") (simp_all add: own_props_def)

lemma feedback_tabType_set:
  "getProp (AList.update ''tabID'' t (AList.update ''tabType'' f ob)) ''tabType'' = f"
  by (simp add: getProp_def update_conv')

lemma documented_callback_cases:
  assumes "map_of documented_callback tag = Some cb"
  shows "(tag = ''updateFileComponent'' \<and> cb = ''onFileComponentUpdate'') \<or>
     (tag = ''updateChatAnswer'' \<and> cb = ''onChatAnswerUpdated'') \<or>
     (tag = ''errorMessage'' \<and> cb = ''onError'') \<or>
     (tag = ''showInvalidTokenNotification'' \<and> cb = ''onWarning'') \<or>
     (tag = ''chatMessage'' \<and> cb = ''onChatAnswerReceived'') \<or>
     (tag = ''codeResultMessage'' \<and> cb = ''onChatAnswerReceived'') \<or>
     (tag = ''asyncEventProgressMessage'' \<and> cb = ''onAsyncEventProgress'') \<or>
     (tag = ''updatePlaceholderMessage'' \<and> cb = ''onUpdatePlaceholder'') \<or>
     (tag = ''chatInputEnabledMessage'' \<and> cb = ''onChatInputEnabled'') \<or>
     (tag = ''authenticationUpdateMessage'' \<and> cb = ''onUpdateAuthentication'') \<or>
     (tag = ''authNeededException'' \<and> cb = ''onChatAnswerReceived'') \<or>
     (tag = ''openNewTabMessage'' \<and> cb = ''onNewTab'')"
proof -
  from assms have "(tag, cb) \<in> set documented_callback" by (rule map_of_SomeD)
  then show ?thesis unfolding documented_callback_def by simp
qed

lemma documented_callback_None:
  assumes "map_of documented_callback tag = None"
  shows "tag \<noteq> ''updateFileComponent'' \<and> tag \<noteq> ''updateChatAnswer'' \<and> tag \<noteq> ''errorMessage'' \<and>
     tag \<noteq> ''showInvalidTokenNotification'' \<and> tag \<noteq> ''chatMessage'' \<and>
     tag \<noteq> ''codeResultMessage'' \<and> tag \<noteq> ''asyncEventProgressMessage'' \<and>
     tag \<noteq> ''updatePlaceholderMessage'' \<and> tag \<noteq> ''chatInputEnabledMessage'' \<and>
     tag \<noteq> ''authenticationUpdateMessage'' \<and> tag \<noteq> ''authNeededException'' \<and>
     tag \<noteq> ''openNewTabMessage''"
proof -
  from assms have "tag \<notin> fst ` set documented_callback" by (simp add: map_of_eq_None_iff)
  then show ?thesis unfolding documented_callback_def by simp
qed

lemma dispatch_recognized:
  assumes ty: "getProp md ''type'' = Str tag"
    and cb: "map_of documented_callback tag = Some cb"
    and wf: "tag = ''codeResultMessage'' \<and> onChatAnswerReceived c \<longrightarrow>
       (\<exists>fs ds. getProp md ''filePaths'' = Arr (map Obj fs) \<and>
                getProp md ''deletedFiles'' = Arr (map Obj ds))"
  shows "ui_invocations (fst (handleMessageReceive c md)) =
      replicate
        (if tag = ''updateChatAnswer'' then (if onChatAnswerUpdated c then 1 else 0)
         else if tag = ''chatMessage'' \<or> tag = ''codeResultMessage''
           then (if onChatAnswerReceived c then 1 else 0)
         else if tag = ''authNeededException'' then (if onChatAnswerReceived c then 2 else 0)
         else 1) cb
    \<and> snd (handleMessageReceive c md) = Inr ()"
proof -
  from documented_callback_cases [OF cb] show ?thesis
  proof (elim disjE conjE)
    assume "tag = ''updateFileComponent''" "cb = ''onFileComponentUpdate''"
    with ty show ?thesis
      by (simp add: handleMessageReceive_def ui_invocations_def)
  next
    assume "tag = ''updateChatAnswer''" "cb = ''onChatAnswerUpdated''"
    with ty show ?thesis
      by (simp add: handleMessageReceive_def ui_invocations_def)
  next
    assume "tag = ''errorMessage''" "cb = ''onError''"
    with ty show ?thesis
      by (simp add: handleMessageReceive_def ui_invocations_def)
  next
    assume "tag = ''showInvalidTokenNotification''" "cb = ''onWarning''"
    with ty show ?thesis
      by (simp add: handleMessageReceive_def ui_invocations_def)
  next
    assume "tag = ''chatMessage''" "cb = ''onChatAnswerReceived''"
    with ty show ?thesis
      by (simp add: handleMessageReceive_def processChatMessage_def ui_invocations_def)
  next
    assume f: "tag = ''codeResultMessage''" "cb = ''onChatAnswerReceived''"
    show ?thesis
    proof (cases "onChatAnswerReceived c")
      case True
      with f wf obtain fs ds where
        "getProp md ''filePaths'' = Arr (map Obj fs)" "getProp md ''deletedFiles'' = Arr (map Obj ds)"
        by auto
      with True f ty show ?thesis
        by (simp add: handle_codeResult processCodeResultMessage_wf ui_invocations_def)
    next
      case False
      with f ty show ?thesis
        by (simp add: handle_codeResult processCodeResultMessage_def ui_invocations_def)
    qed
  next
    assume "tag = ''asyncEventProgressMessage''" "cb = ''onAsyncEventProgress''"
    with ty show ?thesis
      by (simp add: handleMessageReceive_def ui_invocations_def)
  next
    assume "tag = ''updatePlaceholderMessage''" "cb = ''onUpdatePlaceholder''"
    with ty show ?thesis
      by (simp add: handleMessageReceive_def ui_invocations_def)
  next
    assume "tag = ''chatInputEnabledMessage''" "cb = ''onChatInputEnabled''"
    with ty show ?thesis
      by (simp add: handleMessageReceive_def ui_invocations_def)
  next
    assume "tag = ''authenticationUpdateMessage''" "cb = ''onUpdateAuthentication''"
    with ty show ?thesis
      by (simp add: handleMessageReceive_def ui_invocations_def)
  next
    assume "tag = ''authNeededException''" "cb = ''onChatAnswerReceived''"
    with ty show ?thesis
      by (simp add: handleMessageReceive_def processAuthNeededException_def ui_invocations_def
          numeral_2_eq_2)
  next
    assume "tag = ''openNewTabMessage''" "cb = ''onNewTab''"
    with ty show ?thesis
      by (simp add: handleMessageReceive_def ui_invocations_def)
  qed
qed

lemma dispatch_unrecognized:
  assumes "\<forall>tag. getProp md ''type'' = Str tag \<longrightarrow> map_of documented_callback tag = None"
  shows "handleMessageReceive c md = ([], Inr ())"
proof (cases "getProp md ''type''")
  case (Str tag)
  with assms have "map_of documented_callback tag = None" by simp
  from documented_callback_None [OF this] Str show ?thesis
    by (simp add: handleMessageReceive_def)
qed (simp_all add: handleMessageReceive_def)

section \<open>Inbound dispatch\<close>

text \<open>
  C1, as stated: every recognized tag leads to exactly one invocation of its documented
  UI callback. It fails where the documented callback is optional and was not supplied:
  a chat-message record then reaches no callback at all; an auth-needed-exception record
  reaches the answer-received callback twice when it was supplied.
\<close>

theorem handleMessageReceive_dispatch_counterexample:
  "getProp [(''type'', Str ''chatMessage''), (''tabID'', Str ''tab-1''), (''message'', Str ''hello'')]
      ''type'' = Str ''chatMessage''
   \<and> map_of documented_callback ''chatMessage'' = Some ''onChatAnswerReceived''
   \<and> ui_invocations (fst (handleMessageReceive
        \<lparr> onChatAnswerReceived = False, onChatAnswerUpdated = False,
          generateAuthFollowUps = (\<lambda>tabType authType. Undefined), getActions = Arr \<rparr>
        [(''type'', Str ''chatMessage''), (''tabID'', Str ''tab-1''), (''message'', Str ''hello'')]))
      = []
   \<and> ui_invocations (fst (handleMessageReceive
        \<lparr> onChatAnswerReceived = True, onChatAnswerUpdated = False,
          generateAuthFollowUps = (\<lambda>tabType authType. Undefined), getActions = Arr \<rparr>
        [(''type'', Str ''authNeededException''), (''tabID'', Str ''tab-1'')]))
      = [''onChatAnswerReceived'', ''onChatAnswerReceived'']"
  by (simp add: getProp_simps documented_callback_def handleMessageReceive_def
      processChatMessage_def processAuthNeededException_def ui_invocations_def)

text \<open>
  C1, amended: for a record whose tag is one of the twelve recognized tags, the UI
  callbacks invoked are invocations of the callback documented for that tag and of no
  other, and no error is raised. Their number is one for the eight tags whose callback
  is required; for update-chat-answer it is one when the answer-updated callback was
  supplied and zero otherwise; for chat-message and code-result-message it is one when
  the answer-received callback was supplied and zero otherwise; for
  auth-needed-exception it is two when the answer-received callback was supplied and
  zero otherwise. (For a code-result-message with the callback supplied, the record's
  filePaths and deletedFiles are arrays of file-info objects.) For a record whose tag is
  none of the twelve, no callback is invoked, nothing is sent and no error is raised.
\<close>

theorem handleMessageReceive_dispatch:
  "(getProp md ''type'' = Str tag \<and> map_of documented_callback tag = Some cb \<and>
       (tag = ''codeResultMessage'' \<and> onChatAnswerReceived c \<longrightarrow>
          (\<exists>fs ds. getProp md ''filePaths'' = Arr (map Obj fs) \<and>
                   getProp md ''deletedFiles'' = Arr (map Obj ds)))
     \<longrightarrow> ui_invocations (fst (handleMessageReceive c md)) =
           replicate
             (if tag = ''updateChatAnswer'' then (if onChatAnswerUpdated c then 1 else 0)
              else if tag = ''chatMessage'' \<or> tag = ''codeResultMessage''
                then (if onChatAnswerReceived c then 1 else 0)
              else if tag = ''authNeededException'' then (if onChatAnswerReceived c then 2 else 0)
              else 1) cb
         \<and> snd (handleMessageReceive c md) = Inr ())
   \<and> ((\<forall>tag'. getProp md ''type'' = Str tag' \<longrightarrow> map_of documented_callback tag' = None)
     \<longrightarrow> handleMessageReceive c md = ([], Inr ()))"
proof (intro conjI impI)
  assume h: "getProp md ''type'' = Str tag \<and> map_of documented_callback tag = Some cb \<and>
       (tag = ''codeResultMessage'' \<and> onChatAnswerReceived c \<longrightarrow>
          (\<exists>fs ds. getProp md ''filePaths'' = Arr (map Obj fs) \<and>
                   getProp md ''deletedFiles'' = Arr (map Obj ds)))"
  then have r: "ui_invocations (fst (handleMessageReceive c md)) =
      replicate
        (if tag = ''updateChatAnswer'' then (if onChatAnswerUpdated c then 1 else 0)
         else if tag = ''chatMessage'' \<or> tag = ''codeResultMessage''
           then (if onChatAnswerReceived c then 1 else 0)
         else if tag = ''authNeededException'' then (if onChatAnswerReceived c then 2 else 0)
         else 1) cb
    \<and> snd (handleMessageReceive c md) = Inr ()"
    by (intro dispatch_recognized) (elim conjE, assumption)+
  from r show "ui_invocations (fst (handleMessageReceive c md)) =
      replicate
        (if tag = ''updateChatAnswer'' then (if onChatAnswerUpdated c then 1 else 0)
         else if tag = ''chatMessage'' \<or> tag = ''codeResultMessage''
           then (if onChatAnswerReceived c then 1 else 0)
         else if tag = ''authNeededException'' then (if onChatAnswerReceived c then 2 else 0)
         else 1) cb" ..
  from r show "snd (handleMessageReceive c md) = Inr ()" ..
next
  assume "\<forall>tag'. getProp md ''type'' = Str tag' \<longrightarrow> map_of documented_callback tag' = None"
  then show "handleMessageReceive c md = ([], Inr ())" by (rule dispatch_unrecognized)
qed

theorem handleMessageReceive_dispatch_witness:
  "ui_invocations (fst (handleMessageReceive
      \<lparr> onChatAnswerReceived = True, onChatAnswerUpdated = True,
        generateAuthFollowUps = (\<lambda>tabType authType. Undefined), getActions = Arr \<rparr>
      [(''type'', Str ''errorMessage''), (''tabID'', Str ''tab-1''), (''message'', Str ''boom''),
       (''title'', Str ''Error'')])) = [''onError'']
   \<and> ui_invocations (fst (handleMessageReceive
      \<lparr> onChatAnswerReceived = True, onChatAnswerUpdated = True,
        generateAuthFollowUps = (\<lambda>tabType authType. Undefined), getActions = Arr \<rparr>
      [(''type'', Str ''codeResultMessage''), (''tabID'', Str ''tab-1''),
       (''filePaths'', Arr (map Obj [[(''zipFilePath'', Str ''src/a.ts'')]])),
       (''deletedFiles'', Arr (map Obj []))])) = [''onChatAnswerReceived'']
   \<and> handleMessageReceive
      \<lparr> onChatAnswerReceived = True, onChatAnswerUpdated = True,
        generateAuthFollowUps = (\<lambda>tabType authType. Undefined), getActions = Arr \<rparr>
      [(''type'', Str ''somethingElse''), (''tabID'', Str ''tab-1'')] = ([], Inr ())"
proof -
  have "\<exists>fs. [Obj [(''zipFilePath'', Str ''src/a.ts'')]] = map Obj fs"
    by (rule exI [of _ "[[(''zipFilePath'', Str ''src/a.ts'')]]"]) simp
  with
    handleMessageReceive_dispatch
      [of "[(''type'', Str ''errorMessage''), (''tabID'', Str ''tab-1''), (''message'', Str ''boom''),
            (''title'', Str ''Error'')]"
          "''errorMessage''" "''onError''"
          "\<lparr> onChatAnswerReceived = True, onChatAnswerUpdated = True,
             generateAuthFollowUps = (\<lambda>tabType authType. Undefined), getActions = Arr \<rparr>"]
    handleMessageReceive_dispatch
      [of "[(''type'', Str ''codeResultMessage''), (''tabID'', Str ''tab-1''),
            (''filePaths'', Arr (map Obj [[(''zipFilePath'', Str ''src/a.ts'')]])),
            (''deletedFiles'', Arr (map Obj []))]"
          "''codeResultMessage''" "''onChatAnswerReceived''"
          "\<lparr> onChatAnswerReceived = True, onChatAnswerUpdated = True,
             generateAuthFollowUps = (\<lambda>tabType authType. Undefined), getActions = Arr \<rparr>"]
    handleMessageReceive_dispatch
      [of "[(''type'', Str ''somethingElse''), (''tabID'', Str ''tab-1'')]"
          "''somethingElse''" "''onError''"
          "\<lparr> onChatAnswerReceived = True, onChatAnswerUpdated = True,
             generateAuthFollowUps = (\<lambda>tabType authType. Undefined), getActions = Arr \<rparr>"]
  show ?thesis by (simp add: getProp_simps documented_callback_def)
qed

section \<open>Resolution of the message id\<close>

text \<open>
  C2, as stated: the update-chat-answer path resolves the message id by the same
  five-field precedence as the code-result path, so that a record with only
  conversationID and codeGenerationId set resolves to conversationID. On such a record
  the answer built for update-chat-answer carries the empty string instead.
\<close>

theorem messageId_precedence_counterexample:
  "handleMessageReceive
      \<lparr> onChatAnswerReceived = True, onChatAnswerUpdated = True,
        generateAuthFollowUps = (\<lambda>tabType authType. Undefined), getActions = Arr \<rparr>
      [(''type'', Str ''updateChatAnswer''), (''tabID'', Str ''tab-1''),
       (''conversationID'', Str ''conv-1''), (''codeGenerationId'', Str ''gen-1'')]
    = ([OnChatAnswerUpdated (Str ''tab-1'')
          \<lparr> type = Undefined, body = Undefined, messageId = Str '''',
            relatedContent = Undefined, canBeVoted = Undefined, snapToTop = Undefined,
            informationCard = Undefined, followUp = Undefined, codeReference = Undefined,
            fileList = Undefined \<rparr>], Inr ())
   \<and> first_non_missing [Undefined, Undefined, Undefined, Str ''conv-1''] (Str ''gen-1'')
       = Str ''conv-1''
   \<and> Str '''' \<noteq> Str ''conv-1''"
  by (simp add: handleMessageReceive_def createAnswer_def getProp_simps nullish_def)

text \<open>
  C2, amended: in the code-result path the message id, as sent to the host and as
  carried by the answer, is the first non-missing of messageId, messageID, triggerID,
  conversationID, codeGenerationId, in that priority. The answer built for an
  update-chat-answer message uses the first non-missing of messageId, messageID,
  triggerID only, and the empty string when all three are missing. With messageId set
  both resolve to messageId; with only conversationID and codeGenerationId set the
  code-result path resolves to conversationID and answer construction to the empty
  string.
\<close>

theorem messageId_precedence:
  "codeResultMessageId md =
     first_non_missing
       [getProp md ''messageId'', getProp md ''messageID'', getProp md ''triggerID'',
        getProp md ''conversationID''] (getProp md ''codeGenerationId'')
   \<and> (onChatAnswerReceived c \<longrightarrow>
        (\<exists>rest r. processCodeResultMessage c md =
           (SendMessageToExtension
              [(''command'', Str ''store-code-result-message-id''),
               (''tabID'', getProp md ''tabID''),
               (''messageId'', codeResultMessageId md),
               (''tabType'', Str ''featuredev'')] # rest, r)
         \<and> (\<forall>tab a. OnChatAnswerReceived tab a \<in> set rest \<longrightarrow>
                messageId a = codeResultMessageId md)))
   \<and> messageId (createAnswer md) =
       first_non_missing
         [getProp md ''messageId'', getProp md ''messageID'', getProp md ''triggerID''] (Str '''')
   \<and> (getProp md ''type'' = Str ''updateChatAnswer'' \<and> onChatAnswerUpdated c \<longrightarrow>
        handleMessageReceive c md =
          ([OnChatAnswerUpdated (getProp md ''tabID'') (createAnswer md)], Inr ()))
   \<and> (getProp md ''messageId'' \<noteq> Undefined \<and> getProp md ''messageId'' \<noteq> Null \<longrightarrow>
        codeResultMessageId md = getProp md ''messageId'' \<and>
        messageId (createAnswer md) = getProp md ''messageId'')
   \<and> ((getProp md ''messageId'' = Undefined \<or> getProp md ''messageId'' = Null) \<and>
      (getProp md ''messageID'' = Undefined \<or> getProp md ''messageID'' = Null) \<and>
      (getProp md ''triggerID'' = Undefined \<or> getProp md ''triggerID'' = Null) \<and>
      getProp md ''conversationID'' \<noteq> Undefined \<and> getProp md ''conversationID'' \<noteq> Null \<longrightarrow>
        codeResultMessageId md = getProp md ''conversationID'' \<and>
        messageId (createAnswer md) = Str '''')"
proof -
  have send: "onChatAnswerReceived c \<Longrightarrow>
        (\<exists>rest r. processCodeResultMessage c md =
           (SendMessageToExtension
              [(''command'', Str ''store-code-result-message-id''),
               (''tabID'', getProp md ''tabID''),
               (''messageId'', codeResultMessageId md),
               (''tabType'', Str ''featuredev'')] # rest, r)
         \<and> (\<forall>tab a. OnChatAnswerReceived tab a \<in> set rest \<longrightarrow>
                messageId a = codeResultMessageId md))"
    by (auto simp: processCodeResultMessage_def Let_def split: sum.splits)
  have upd: "getProp md ''type'' = Str ''updateChatAnswer'' \<Longrightarrow> onChatAnswerUpdated c \<Longrightarrow>
        handleMessageReceive c md =
          ([OnChatAnswerUpdated (getProp md ''tabID'') (createAnswer md)], Inr ())"
    by (simp add: handleMessageReceive_def)
  show ?thesis
    using send upd by (simp add: codeResultMessageId_def createAnswer_def nullish_def)
qed

theorem messageId_precedence_witness:
  "codeResultMessageId
      [(''type'', Str ''updateChatAnswer''), (''messageId'', Str ''m-1''), (''triggerID'', Str ''t-1'')]
     = Str ''m-1''
   \<and> messageId (createAnswer
      [(''type'', Str ''updateChatAnswer''), (''messageId'', Str ''m-1''), (''triggerID'', Str ''t-1'')])
     = Str ''m-1''
   \<and> codeResultMessageId
      [(''type'', Str ''codeResultMessage''), (''conversationID'', Str ''conv-1''),
       (''codeGenerationId'', Str ''gen-1'')]
     = Str ''conv-1''
   \<and> fst (processCodeResultMessage
      \<lparr> onChatAnswerReceived = True, onChatAnswerUpdated = True,
        generateAuthFollowUps = (\<lambda>tabType authType. Undefined), getActions = Arr \<rparr>
      [(''type'', Str ''codeResultMessage''), (''conversationID'', Str ''conv-1''),
       (''codeGenerationId'', Str ''gen-1'')])
     = [SendMessageToExtension
          [(''command'', Str ''store-code-result-message-id''), (''tabID'', Undefined),
           (''messageId'', Str ''conv-1''), (''tabType'', Str ''featuredev'')]]
   \<and> handleMessageReceive
      \<lparr> onChatAnswerReceived = True, onChatAnswerUpdated = True,
        generateAuthFollowUps = (\<lambda>tabType authType. Undefined), getActions = Arr \<rparr>
      [(''type'', Str ''updateChatAnswer''), (''messageId'', Str ''m-1''), (''triggerID'', Str ''t-1'')]
     = ([OnChatAnswerUpdated Undefined
          (createAnswer
            [(''type'', Str ''updateChatAnswer''), (''messageId'', Str ''m-1''),
             (''triggerID'', Str ''t-1'')])], Inr ())"
  using
    messageId_precedence
      [of "[(''type'', Str ''updateChatAnswer''), (''messageId'', Str ''m-1''),
            (''triggerID'', Str ''t-1'')]"
          "\<lparr> onChatAnswerReceived = True, onChatAnswerUpdated = True,
             generateAuthFollowUps = (\<lambda>tabType authType. Undefined), getActions = Arr \<rparr>"]
    messageId_precedence
      [of "[(''type'', Str ''codeResultMessage''), (''conversationID'', Str ''conv-1''),
            (''codeGenerationId'', Str ''gen-1'')]"
          "\<lparr> onChatAnswerReceived = True, onChatAnswerUpdated = True,
             generateAuthFollowUps = (\<lambda>tabType authType. Undefined), getActions = Arr \<rparr>"]
  by (simp add: getProp_simps processCodeResultMessage_def codeResultMessageId_def nullish_def)

section \<open>Code-result handling\<close>

text \<open>
  C3, as stated: every code-result-message record leads to the bookkeeping send followed
  by the answer-received callback. It fails when the answer-received callback was not
  supplied (nothing is sent, nothing is invoked), and when the record carries no
  filePaths array (the send happens, then a TypeError is raised before the callback).
\<close>

theorem codeResult_effects_counterexample:
  "handleMessageReceive
      \<lparr> onChatAnswerReceived = False, onChatAnswerUpdated = False,
        generateAuthFollowUps = (\<lambda>tabType authType. Undefined), getActions = Arr \<rparr>
      [(''type'', Str ''codeResultMessage''), (''tabID'', Str ''tab-1''),
       (''conversationID'', Str ''conv-1''),
       (''filePaths'', Arr [Obj [(''zipFilePath'', Str ''src/a.ts'')]]),
       (''deletedFiles'', Arr [])]
    = ([], Inr ())
   \<and> handleMessageReceive
      \<lparr> onChatAnswerReceived = True, onChatAnswerUpdated = False,
        generateAuthFollowUps = (\<lambda>tabType authType. Undefined), getActions = Arr \<rparr>
      [(''type'', Str ''codeResultMessage''), (''tabID'', Str ''tab-1''),
       (''conversationID'', Str ''conv-1''), (''deletedFiles'', Arr [])]
    = ([SendMessageToExtension
          [(''command'', Str ''store-code-result-message-id''), (''tabID'', Str ''tab-1''),
           (''messageId'', Str ''conv-1''), (''tabType'', Str ''featuredev'')]],
       Inl TypeError)"
  by (simp add: handleMessageReceive_def processCodeResultMessage_def codeResultMessageId_def
      getProp_simps nullish_def)

text \<open>
  C3, amended: for every code-result-message record whose filePaths and deletedFiles are
  arrays of file-info objects, and when the answer-received callback was supplied,
  handling performs exactly two invocations, in this order: one send to the host of a
  store-code-result-message-id message carrying the resolved message id and the tab id,
  then one invocation of the answer-received callback with an answer whose file list has
  as filePaths and deletedFiles the entries' zipFilePath values in input order, and as
  actions the result of the diff-tree collaborator on the added entries followed by the
  deleted entries.
\<close>

theorem codeResult_effects:
  assumes "getProp md ''type'' = Str ''codeResultMessage''"
    and "onChatAnswerReceived c"
    and "getProp md ''filePaths'' = Arr (map Obj fs)"
    and "getProp md ''deletedFiles'' = Arr (map Obj ds)"
  shows "\<exists>answer.
    handleMessageReceive c md =
      ([SendMessageToExtension
          [(''command'', Str ''store-code-result-message-id''),
           (''tabID'', getProp md ''tabID''),
           (''messageId'', codeResultMessageId md),
           (''tabType'', Str ''featuredev'')],
        OnChatAnswerReceived (getProp md ''tabID'') answer],
       Inr ())
    \<and> fileList answer = Obj
          [(''rootFolderTitle'', Str ''Changes''),
           (''filePaths'', Arr (map (\<lambda>e. getProp e ''zipFilePath'') fs)),
           (''deletedFiles'', Arr (map (\<lambda>e. getProp e ''zipFilePath'') ds)),
           (''actions'', getActions c (map Obj fs @ map Obj ds))]"
  using assms by (simp add: handle_codeResult processCodeResultMessage_wf)

theorem codeResult_effects_witness:
  "\<exists>answer.
    handleMessageReceive
      \<lparr> onChatAnswerReceived = True, onChatAnswerUpdated = False,
        generateAuthFollowUps = (\<lambda>tabType authType. Undefined), getActions = Arr \<rparr>
      [(''type'', Str ''codeResultMessage''), (''tabID'', Str ''tab-1''),
       (''conversationID'', Str ''conv-1''),
       (''filePaths'', Arr [Obj [(''zipFilePath'', Str ''src/a.ts'')],
                            Obj [(''zipFilePath'', Str ''src/b.ts'')]]),
       (''deletedFiles'', Arr [Obj [(''zipFilePath'', Str ''src/old.ts'')]])]
    = ([SendMessageToExtension
          [(''command'', Str ''store-code-result-message-id''), (''tabID'', Str ''tab-1''),
           (''messageId'', Str ''conv-1''), (''tabType'', Str ''featuredev'')],
        OnChatAnswerReceived (Str ''tab-1'') answer],
       Inr ())
    \<and> fileList answer = Obj
        [(''rootFolderTitle'', Str ''Changes''),
         (''filePaths'', Arr [Str ''src/a.ts'', Str ''src/b.ts'']),
         (''deletedFiles'', Arr [Str ''src/old.ts'']),
         (''actions'', Arr [Obj [(''zipFilePath'', Str ''src/a.ts'')],
                            Obj [(''zipFilePath'', Str ''src/b.ts'')],
                            Obj [(''zipFilePath'', Str ''src/old.ts'')]])]"
  using codeResult_effects
    [of "[(''type'', Str ''codeResultMessage''), (''tabID'', Str ''tab-1''),
          (''conversationID'', Str ''conv-1''),
          (''filePaths'', Arr [Obj [(''zipFilePath'', Str ''src/a.ts'')],
                               Obj [(''zipFilePath'', Str ''src/b.ts'')]]),
          (''deletedFiles'', Arr [Obj [(''zipFilePath'', Str ''src/old.ts'')]])]"
        "\<lparr> onChatAnswerReceived = True, onChatAnswerUpdated = False,
           generateAuthFollowUps = (\<lambda>tabType authType. Undefined), getActions = Arr \<rparr>"
        "[[(''zipFilePath'', Str ''src/a.ts'')], [(''zipFilePath'', Str ''src/b.ts'')]]"
        "[[(''zipFilePath'', Str ''src/old.ts'')]]"]
  by (simp add: getProp_simps codeResultMessageId_def nullish_def)

section \<open>Answer construction\<close>

text \<open>
  C4: in answer construction the followUp field is undefined exactly when the record's
  followUps field is absent or is not an array. When followUps is an array, the followUp
  block carries it as options, and its text is the empty string exactly when the
  answer's type is system-prompt or the array is empty; otherwise the text is the fixed
  prompt "Please follow up with one of these".
\<close>

theorem createAnswer_followUp:
  "(followUp (createAnswer md) = Undefined) =
     (getProp md ''followUps'' = Undefined \<or> \<not> isArray (getProp md ''followUps''))
   \<and> (\<forall>opts. getProp md ''followUps'' = Arr opts \<longrightarrow>
         (\<exists>t. followUp (createAnswer md) = Obj [(''text'', Str t), (''options'', Arr opts)]
            \<and> ((t = '''') = (type (createAnswer md) = SYSTEM_PROMPT \<or> opts = []))
            \<and> (\<not> (type (createAnswer md) = SYSTEM_PROMPT \<or> opts = []) \<longrightarrow>
                 t = ''Please follow up with one of these'')))"
  by (auto simp: createAnswer_def)

theorem createAnswer_followUp_witness:
  "followUp (createAnswer [(''messageType'', Str ''answer''), (''followUps'', Arr [Str ''Retry''])])
     = Obj [(''text'', Str ''Please follow up with one of these''),
            (''options'', Arr [Str ''Retry''])]
   \<and> followUp (createAnswer [(''messageType'', Str ''system-prompt''),
        (''followUps'', Arr [Str ''Retry''])])
     = Obj [(''text'', Str ''''), (''options'', Arr [Str ''Retry''])]
   \<and> followUp (createAnswer [(''messageType'', Str ''answer''), (''followUps'', Arr [])])
     = Obj [(''text'', Str ''''), (''options'', Arr [])]
   \<and> followUp (createAnswer [(''messageType'', Str ''answer''), (''followUps'', Str ''Retry'')])
     = Undefined"
  using
    createAnswer_followUp [of "[(''messageType'', Str ''answer''), (''followUps'', Arr [Str ''Retry''])]"]
    createAnswer_followUp [of "[(''messageType'', Str ''system-prompt''),
        (''followUps'', Arr [Str ''Retry''])]"]
    createAnswer_followUp [of "[(''messageType'', Str ''answer''), (''followUps'', Arr [])]"]
    createAnswer_followUp [of "[(''messageType'', Str ''answer''), (''followUps'', Str ''Retry'')]"]
  by (simp add: getProp_simps SYSTEM_PROMPT_def createAnswer_def)

section \<open>Outbound messages\<close>

text \<open>
  C5: for every outbound action method and every combination of its arguments,
  undefined optional ones included, the method performs exactly one invocation of the
  send callback and nothing else, and the record it sends has tabType 'featuredev' and
  as command the tag of that method.
\<close>

theorem outbound_messages:
  "(\<exists>m. onCodeInsertToCursorPosition tabID code ty refs = [SendMessageToExtension m] \<and>
        getProp m ''tabType'' = Str ''featuredev'' \<and>
        getProp m ''command'' = Str ''insert_code_at_cursor_position'')
   \<and> (\<exists>m. onCopyCodeToClipboard tabID code ty refs = [SendMessageToExtension m] \<and>
        getProp m ''tabType'' = Str ''featuredev'' \<and>
        getProp m ''command'' = Str ''code_was_copied_to_clipboard'')
   \<and> (\<exists>m. onOpenDiff tabID filePath deleted = [SendMessageToExtension m] \<and>
        getProp m ''tabType'' = Str ''featuredev'' \<and>
        getProp m ''command'' = Str ''open-diff'')
   \<and> (\<exists>m. followUpClicked tabID fu = [SendMessageToExtension m] \<and>
        getProp m ''tabType'' = Str ''featuredev'' \<and>
        getProp m ''command'' = Str ''follow-up-was-clicked'')
   \<and> (\<exists>m. fst (requestGenerativeAIAnswer tabID payload) = [SendMessageToExtension m] \<and>
        getProp m ''tabType'' = Str ''featuredev'' \<and>
        getProp m ''command'' = Str ''chat-prompt'')
   \<and> (\<exists>m. onFileActionClick tabID mid filePath actionName = [SendMessageToExtension m] \<and>
        getProp m ''tabType'' = Str ''featuredev'' \<and>
        getProp m ''command'' = Str ''file-click'')
   \<and> (\<exists>m. onStopChatResponse tabID = [SendMessageToExtension m] \<and>
        getProp m ''tabType'' = Str ''featuredev'' \<and>
        getProp m ''command'' = Str ''stop-response'')
   \<and> (\<exists>m. onTabOpen tabID = [SendMessageToExtension m] \<and>
        getProp m ''tabType'' = Str ''featuredev'' \<and>
        getProp m ''command'' = Str ''new-tab-was-created'')
   \<and> (\<exists>m. onTabRemove tabID = [SendMessageToExtension m] \<and>
        getProp m ''tabType'' = Str ''featuredev'' \<and>
        getProp m ''command'' = Str ''tab-was-removed'')
   \<and> (\<exists>m. sendFeedback tabID feedbackPayload = [SendMessageToExtension m] \<and>
        getProp m ''tabType'' = Str ''featuredev'' \<and>
        getProp m ''command'' = Str ''chat-item-feedback'')
   \<and> (\<exists>m. onChatItemVoted tabID mid vote = [SendMessageToExtension m] \<and>
        getProp m ''tabType'' = Str ''featuredev'' \<and>
        getProp m ''command'' = Str ''chat-item-voted'')
   \<and> (\<exists>m. onResponseBodyLinkClick tabID mid link = [SendMessageToExtension m] \<and>
        getProp m ''tabType'' = Str ''featuredev'' \<and>
        getProp m ''command'' = Str ''response-body-link-click'')"
proof (intro conjI)
  show "\<exists>m. onCodeInsertToCursorPosition tabID code ty refs = [SendMessageToExtension m] \<and>
        getProp m ''tabType'' = Str ''featuredev'' \<and>
        getProp m ''command'' = Str ''insert_code_at_cursor_position''"
    by (simp add: onCodeInsertToCursorPosition_def getProp_simps)
  show "\<exists>m. onCopyCodeToClipboard tabID code ty refs = [SendMessageToExtension m] \<and>
        getProp m ''tabType'' = Str ''featuredev'' \<and>
        getProp m ''command'' = Str ''code_was_copied_to_clipboard''"
    by (simp add: onCopyCodeToClipboard_def getProp_simps)
  show "\<exists>m. onOpenDiff tabID filePath deleted = [SendMessageToExtension m] \<and>
        getProp m ''tabType'' = Str ''featuredev'' \<and>
        getProp m ''command'' = Str ''open-diff''"
    by (simp add: onOpenDiff_def getProp_simps)
  show "\<exists>m. followUpClicked tabID fu = [SendMessageToExtension m] \<and>
        getProp m ''tabType'' = Str ''featuredev'' \<and>
        getProp m ''command'' = Str ''follow-up-was-clicked''"
    by (simp add: followUpClicked_def getProp_simps)
  show "\<exists>m. fst (requestGenerativeAIAnswer tabID payload) = [SendMessageToExtension m] \<and>
        getProp m ''tabType'' = Str ''featuredev'' \<and>
        getProp m ''command'' = Str ''chat-prompt''"
    by (simp add: requestGenerativeAIAnswer_def new_Promise_def getProp_simps)
  show "\<exists>m. onFileActionClick tabID mid filePath actionName = [SendMessageToExtension m] \<and>
        getProp m ''tabType'' = Str ''featuredev'' \<and>
        getProp m ''command'' = Str ''file-click''"
    by (simp add: onFileActionClick_def getProp_simps)
  show "\<exists>m. onStopChatResponse tabID = [SendMessageToExtension m] \<and>
        getProp m ''tabType'' = Str ''featuredev'' \<and>
        getProp m ''command'' = Str ''stop-response''"
    by (simp add: onStopChatResponse_def getProp_simps)
  show "\<exists>m. onTabOpen tabID = [SendMessageToExtension m] \<and>
        getProp m ''tabType'' = Str ''featuredev'' \<and>
        getProp m ''command'' = Str ''new-tab-was-created''"
    by (simp add: onTabOpen_def getProp_simps)
  show "\<exists>m. onTabRemove tabID = [SendMessageToExtension m] \<and>
        getProp m ''tabType'' = Str ''featuredev'' \<and>
        getProp m ''command'' = Str ''tab-was-removed''"
    by (simp add: onTabRemove_def getProp_simps)
  show "\<exists>m. sendFeedback tabID feedbackPayload = [SendMessageToExtension m] \<and>
        getProp m ''tabType'' = Str ''featuredev'' \<and>
        getProp m ''command'' = Str ''chat-item-feedback''"
    by (simp add: sendFeedback_def feedback_tabType_set feedback_command_kept
        own_props_no_command)
  show "\<exists>m. onChatItemVoted tabID mid vote = [SendMessageToExtension m] \<and>
        getProp m ''tabType'' = Str ''featuredev'' \<and>
        getProp m ''command'' = Str ''chat-item-voted''"
    by (simp add: onChatItemVoted_def getProp_simps)
  show "\<exists>m. onResponseBodyLinkClick tabID mid link = [SendMessageToExtension m] \<and>
        getProp m ''tabType'' = Str ''featuredev'' \<and>
        getProp m ''command'' = Str ''response-body-link-click''"
    by (simp add: onResponseBodyLinkClick_def getProp_simps)
qed

theorem outbound_messages_witness:
  "sendFeedback ''tab-1''
      \<lparr> payload_messageId = ''m-1'', payload_tabId = ''tab-1'', selectedOption = ''helpful'',
        comment = Some ''thanks'' \<rparr>
    = [SendMessageToExtension
         [(''command'', Str ''chat-item-feedback''), (''messageId'', Str ''m-1''),
          (''tabId'', Str ''tab-1''), (''selectedOption'', Str ''helpful''),
          (''comment'', Str ''thanks''),
          (''tabType'', Str ''featuredev''), (''tabID'', Str ''tab-1'')]]
   \<and> onCodeInsertToCursorPosition ''tab-1'' None None None
    = [SendMessageToExtension
         [(''tabID'', Str ''tab-1''), (''code'', Undefined),
          (''command'', Str ''insert_code_at_cursor_position''),
          (''codeReference'', Undefined), (''tabType'', Str ''featuredev'')]]"
  using outbound_messages
    [where tabID = "''tab-1''" and code = None and ty = None and refs = None
       and filePath = "''src/a.ts''" and deleted = False and fu = Undefined
       and payload = "\<lparr> chatMessage = ''hello'' \<rparr>" and mid = "''m-1''"
       and actionName = "''reject-change''" and vote = "''upvote''" and link = "''https://x''"
       and feedbackPayload = "\<lparr> payload_messageId = ''m-1'', payload_tabId = ''tab-1'',
         selectedOption = ''helpful'', comment = Some ''thanks'' \<rparr>"]
  by (simp add: sendFeedback_def spread_props_def own_props_def getProp_simps
      onCodeInsertToCursorPosition_def)

section \<open>The chat-prompt submission\<close>

text \<open>
  C7: for every tab id and chat payload, \<open>requestGenerativeAIAnswer\<close> performs exactly
  one send, of a chat-prompt message, and the promise it returns is left pending: its
  executor, the only holder of the settling functions, takes no settling step.
\<close>

theorem requestGenerativeAIAnswer_pending:
  "requestGenerativeAIAnswer tabID payload =
     ([SendMessageToExtension
         [(''tabID'', Str tabID),
          (''command'', Str ''chat-prompt''),
          (''chatMessage'', Str (chatMessage payload)),
          (''tabType'', Str ''featuredev'')]],
      Pending)"
  by (simp add: requestGenerativeAIAnswer_def new_Promise_def)

section \<open>Auth-needed handling\<close>

text \<open>
  C6: on an auth-needed-exception record, when the answer-received callback is
  registered, it is invoked exactly twice, in order, on the record's tab id: first with
  an answer-typed item carrying the record's message as body and canBeVoted false, then
  with a system-prompt-typed item with no body, canBeVoted false, and the followUp block
  that the follow-up generator returns for 'featuredev' and the record's authType. When
  the callback is not registered, nothing is invoked.
\<close>

theorem authNeededException_answers:
  "getProp md ''type'' = Str ''authNeededException'' \<Longrightarrow>
   handleMessageReceive c md =
     (if onChatAnswerReceived c
      then [OnChatAnswerReceived (getProp md ''tabID'')
              \<lparr> type = ANSWER, body = getProp md ''message'', messageId = Undefined,
                relatedContent = Undefined, canBeVoted = Bool False, snapToTop = Undefined,
                informationCard = Undefined, followUp = Undefined,
                codeReference = Undefined, fileList = Undefined \<rparr>,
            OnChatAnswerReceived (getProp md ''tabID'')
              \<lparr> type = SYSTEM_PROMPT, body = Undefined, messageId = Undefined,
                relatedContent = Undefined, canBeVoted = Bool False, snapToTop = Undefined,
                informationCard = Undefined,
                followUp = generateAuthFollowUps c (Str ''featuredev'') (getProp md ''authType''),
                codeReference = Undefined, fileList = Undefined \<rparr>]
      else [], Inr ())"
  by (simp add: handleMessageReceive_def processAuthNeededException_def)

theorem authNeededException_answers_witness:
  "handleMessageReceive
      \<lparr> onChatAnswerReceived = True, onChatAnswerUpdated = False,
        generateAuthFollowUps = (\<lambda>tabType authType. Obj [(''text'', Str ''Select''),
           (''options'', Arr [tabType, authType])]),
        getActions = Arr \<rparr>
      [(''type'', Str ''authNeededException''), (''tabID'', Str ''tab-1''),
       (''message'', Str ''Sign in first''), (''authType'', Str ''full-auth'')]
    = ([OnChatAnswerReceived (Str ''tab-1'')
          \<lparr> type = Str ''answer'', body = Str ''Sign in first'', messageId = Undefined,
            relatedContent = Undefined, canBeVoted = Bool False, snapToTop = Undefined,
            informationCard = Undefined, followUp = Undefined,
            codeReference = Undefined, fileList = Undefined \<rparr>,
        OnChatAnswerReceived (Str ''tab-1'')
          \<lparr> type = Str ''system-prompt'', body = Undefined, messageId = Undefined,
            relatedContent = Undefined, canBeVoted = Bool False, snapToTop = Undefined,
            informationCard = Undefined,
            followUp = Obj [(''text'', Str ''Select''),
              (''options'', Arr [Str ''featuredev'', Str ''full-auth''])],
            codeReference = Undefined, fileList = Undefined \<rparr>], Inr ())
   \<and> handleMessageReceive
      \<lparr> onChatAnswerReceived = False, onChatAnswerUpdated = False,
        generateAuthFollowUps = (\<lambda>tabType authType. Undefined), getActions = Arr \<rparr>
      [(''type'', Str ''authNeededException''), (''tabID'', Str ''tab-1''),
       (''message'', Str ''Sign in first''), (''authType'', Str ''full-auth'')]
    = ([], Inr ())"
  using
    authNeededException_answers
      [of "[(''type'', Str ''authNeededException''), (''tabID'', Str ''tab-1''),
            (''message'', Str ''Sign in first''), (''authType'', Str ''full-auth'')]"
          "\<lparr> onChatAnswerReceived = True, onChatAnswerUpdated = False,
             generateAuthFollowUps = (\<lambda>tabType authType. Obj [(''text'', Str ''Select''),
               (''options'', Arr [tabType, authType])]),
             getActions = Arr \<rparr>"]
    authNeededException_answers
      [of "[(''type'', Str ''authNeededException''), (''tabID'', Str ''tab-1''),
            (''message'', Str ''Sign in first''), (''authType'', Str ''full-auth'')]"
          "\<lparr> onChatAnswerReceived = False, onChatAnswerUpdated = False,
             generateAuthFollowUps = (\<lambda>tabType authType. Undefined), getActions = Arr \<rparr>"]
  by (simp add: getProp_simps ANSWER_def SYSTEM_PROMPT_def)

section \<open>Async progress\<close>

text \<open>
  C8, as stated: when the record has no message, the async-progress callback receives
  the empty string. It receives \<^verbatim>\<open>undefined\<close>.
\<close>

theorem asyncEventProgress_callback_counterexample:
  "handleMessageReceive
      \<lparr> onChatAnswerReceived = True, onChatAnswerUpdated = True,
        generateAuthFollowUps = (\<lambda>tabType authType. Undefined), getActions = Arr \<rparr>
      [(''type'', Str ''asyncEventProgressMessage''), (''tabID'', Str ''tab-1''),
       (''inProgress'', Bool True)]
    = ([OnAsyncEventProgress (Str ''tab-1'') (Bool True) Undefined (Bool True)], Inr ())
   \<and> handleMessageReceive
      \<lparr> onChatAnswerReceived = True, onChatAnswerUpdated = True,
        generateAuthFollowUps = (\<lambda>tabType authType. Undefined), getActions = Arr \<rparr>
      [(''type'', Str ''asyncEventProgressMessage''), (''tabID'', Str ''tab-1''),
       (''inProgress'', Bool True)]
    \<noteq> ([OnAsyncEventProgress (Str ''tab-1'') (Bool True) (Str '''') (Bool True)], Inr ())"
  by (simp add: handleMessageReceive_def getProp_simps nullish_def)

text \<open>
  C8, amended: for every async-event-progress record, dispatch invokes the
  async-progress callback exactly once, and nothing else, with the record's tab id, its
  in-progress flag, the record's message, or \<^verbatim>\<open>undefined\<close> when the message is absent
  (undefined or null), and the constant true as cancel-button flag.
\<close>

theorem asyncEventProgress_callback:
  "getProp md ''type'' = Str ''asyncEventProgressMessage'' \<Longrightarrow>
   handleMessageReceive c md =
     ([OnAsyncEventProgress (getProp md ''tabID'') (getProp md ''inProgress'')
         (if getProp md ''message'' = Undefined \<or> getProp md ''message'' = Null
          then Undefined else getProp md ''message'')
         (Bool True)], Inr ())"
  by (simp add: handleMessageReceive_def nullish_def)

theorem asyncEventProgress_callback_witness:
  "handleMessageReceive
      \<lparr> onChatAnswerReceived = True, onChatAnswerUpdated = True,
        generateAuthFollowUps = (\<lambda>tabType authType. Undefined), getActions = Arr \<rparr>
      [(''type'', Str ''asyncEventProgressMessage''), (''tabID'', Str ''tab-1''),
       (''inProgress'', Bool True), (''message'', Str ''Generating code'')]
    = ([OnAsyncEventProgress (Str ''tab-1'') (Bool True) (Str ''Generating code'') (Bool True)],
       Inr ())"
  using asyncEventProgress_callback
    [of "[(''type'', Str ''asyncEventProgressMessage''), (''tabID'', Str ''tab-1''),
          (''inProgress'', Bool True), (''message'', Str ''Generating code'')]"
        "\<lparr> onChatAnswerReceived = True, onChatAnswerUpdated = True,
           generateAuthFollowUps = (\<lambda>tabType authType. Undefined), getActions = Arr \<rparr>"]
  by (simp add: getProp_simps)

section \<open>Missing answer-received callback\<close>

text \<open>
  C9: when the answer-received callback was not supplied, dispatching a
  code-result-message record has no effect at all: neither the
  store-code-result-message-id send nor any UI callback happens, and no error is raised.
\<close>

theorem codeResult_without_callback:
  "\<not> onChatAnswerReceived c \<Longrightarrow> getProp md ''type'' = Str ''codeResultMessage'' \<Longrightarrow>
   handleMessageReceive c md = ([], Inr ())"
  by (simp add: handleMessageReceive_def processCodeResultMessage_def)

theorem codeResult_without_callback_witness:
  "handleMessageReceive
      \<lparr> onChatAnswerReceived = False, onChatAnswerUpdated = True,
        generateAuthFollowUps = (\<lambda>tabType authType. Undefined), getActions = Arr \<rparr>
      [(''type'', Str ''codeResultMessage''), (''tabID'', Str ''tab-1''),
       (''conversationID'', Str ''conv-1''),
       (''filePaths'', Arr [Obj [(''zipFilePath'', Str ''src/a.ts'')]]),
       (''deletedFiles'', Arr [])]
    = ([], Inr ())"
  using codeResult_without_callback
    [of "\<lparr> onChatAnswerReceived = False, onChatAnswerUpdated = True,
           generateAuthFollowUps = (\<lambda>tabType authType. Undefined), getActions = Arr \<rparr>"
        "[(''type'', Str ''codeResultMessage''), (''tabID'', Str ''tab-1''),
          (''conversationID'', Str ''conv-1''),
          (''filePaths'', Arr [Obj [(''zipFilePath'', Str ''src/a.ts'')]]),
          (''deletedFiles'', Arr [])]"]
  by (simp add: getProp_simps)

section \<open>Default message id of answer construction\<close>

text \<open>
  C10: for every record in which messageId, messageID and triggerID are all absent
  (undefined or null), the answer built by \<open>createAnswer\<close> has the empty string as
  messageId, not \<^verbatim>\<open>undefined\<close>; and the answer does not depend on the record's
  conversationID and codeGenerationId: two records that agree on every other property
  yield the same answer.
\<close>

theorem createAnswer_messageId_default:
  "((getProp md ''messageId'' = Undefined \<or> getProp md ''messageId'' = Null) \<and>
    (getProp md ''messageID'' = Undefined \<or> getProp md ''messageID'' = Null) \<and>
    (getProp md ''triggerID'' = Undefined \<or> getProp md ''triggerID'' = Null)
      \<longrightarrow> messageId (createAnswer md) = Str '''' \<and> messageId (createAnswer md) \<noteq> Undefined)
   \<and> ((\<forall>k. k \<noteq> ''conversationID'' \<and> k \<noteq> ''codeGenerationId'' \<longrightarrow> getProp md k = getProp md' k)
      \<longrightarrow> createAnswer md = createAnswer md')"
  by (simp add: createAnswer_def nullish_def)

theorem createAnswer_messageId_default_witness:
  "messageId (createAnswer
      [(''messageType'', Str ''answer''), (''message'', Str ''hi''),
       (''conversationID'', Str ''conv-1''), (''codeGenerationId'', Str ''gen-1'')]) = Str ''''
   \<and> createAnswer
      [(''conversationID'', Str ''conv-1''), (''codeGenerationId'', Str ''gen-1''),
       (''messageType'', Str ''answer''), (''message'', Str ''hi'')]
     = createAnswer [(''messageType'', Str ''answer''), (''message'', Str ''hi'')]"
  using
    createAnswer_messageId_default
      [of "[(''messageType'', Str ''answer''), (''message'', Str ''hi''),
            (''conversationID'', Str ''conv-1''), (''codeGenerationId'', Str ''gen-1'')]"
          "[]"]
    createAnswer_messageId_default
      [of "[(''conversationID'', Str ''conv-1''), (''codeGenerationId'', Str ''gen-1''),
            (''messageType'', Str ''answer''), (''message'', Str ''hi'')]"
          "[(''messageType'', Str ''answer''), (''message'', Str ''hi'')]"]
  by (simp add: getProp_simps)

end
